theory Spec2Isabelle
  imports Complex_Main
begin

section \<open>Values of the Python program\<close>

text \<open>
  The program is one Python script, \<^verbatim>\<open>app(1).py\<close>: two agent functions that call a
  hosted model (\<^verbatim>\<open>agent_generator\<close>, \<^verbatim>\<open>agent_critic\<close>) and a module-level loop that
  runs them a fixed number of times and keeps the reviews that score at least 7.

  A Python \<^verbatim>\<open>str\<close> is modelled as \<^typ>\<open>string\<close>; one \<^typ>\<open>char\<close> of the model stands
  for one character of the Python string, so \<^const>\<open>length\<close> is Python's \<^verbatim>\<open>len\<close>.
  An exception is a value: its class name and the text \<^verbatim>\<open>str(e)\<close> gives for it.
\<close>

datatype pyexc = Raised (exc_type: string) (exc_str: string)

text \<open>
  What \<^verbatim>\<open>json.loads\<close> can return. A Python \<^verbatim>\<open>float\<close> is kept by its exact value
  (every finite double is a rational) or as one of the three non-finite values that
  \<^verbatim>\<open>json.loads\<close> accepts (\<^verbatim>\<open>Infinity\<close>, \<^verbatim>\<open>-Infinity\<close>, \<^verbatim>\<open>NaN\<close>); the program only
  compares such a value with the integer 7. A \<^verbatim>\<open>dict\<close> is an association list read
  with \<^const>\<open>map_of\<close>.
\<close>

datatype pyfloat = Finite rat | PosInf | NegInf | NaN

datatype json =
    JNull
  | JBool bool
  | JInt int
  | JFloat pyfloat
  | JStr string
  | JList "json list"
  | JDict "(string \<times> json) list"

text \<open>\<^verbatim>\<open>review.get(key, default)\<close>: only a dict has the method.\<close>

fun py_get :: "json \<Rightarrow> string \<Rightarrow> json \<Rightarrow> pyexc + json" where
  "py_get (JDict kvs) key dflt = Inr (case map_of kvs key of None \<Rightarrow> dflt | Some v \<Rightarrow> v)"
| "py_get _ key dflt = Inl (Raised ''AttributeError'' ''object has no attribute get'')"

text \<open>\<^verbatim>\<open>review[key]\<close> with a string key: a missing key raises \<^verbatim>\<open>KeyError\<close>.\<close>

fun py_getitem :: "json \<Rightarrow> string \<Rightarrow> pyexc + json" where
  "py_getitem (JDict kvs) key =
     (case map_of kvs key of None \<Rightarrow> Inl (Raised ''KeyError'' key) | Some v \<Rightarrow> Inr v)"
| "py_getitem _ key = Inl (Raised ''TypeError'' ''bad subscript'')"

text \<open>
  \<^verbatim>\<open>value >= n\<close> for an integer literal \<^verbatim>\<open>n\<close>. Python compares an \<^verbatim>\<open>int\<close>, a \<^verbatim>\<open>float\<close>
  (exactly; \<^verbatim>\<open>nan\<close> compares false) and a \<^verbatim>\<open>bool\<close> (\<^verbatim>\<open>True\<close> is 1, \<^verbatim>\<open>False\<close> is 0) with
  an \<^verbatim>\<open>int\<close>; for \<^verbatim>\<open>None\<close>, a \<^verbatim>\<open>str\<close>, a \<^verbatim>\<open>list\<close> or a \<^verbatim>\<open>dict\<close> it raises \<^verbatim>\<open>TypeError\<close>.
\<close>

fun py_ge :: "json \<Rightarrow> int \<Rightarrow> pyexc + bool" where
  "py_ge (JInt k) n = Inr (n \<le> k)"
| "py_ge (JBool b) n = Inr (n \<le> (if b then 1 else 0))"
| "py_ge (JFloat (Finite q)) n = Inr (of_int n \<le> q)"
| "py_ge (JFloat PosInf) n = Inr True"
| "py_ge (JFloat NegInf) n = Inr False"
| "py_ge (JFloat NaN) n = Inr False"
| "py_ge _ n = Inl (Raised ''TypeError'' ''>= not supported'')"

text \<open>\<^verbatim>\<open>str(n)\<close> for a natural number: its decimal digits.\<close>

fun str_nat :: "nat \<Rightarrow> string" where
  "str_nat n =
     (if n < 10 then [''0123456789'' ! n]
      else str_nat (n div 10) @ [''0123456789'' ! (n mod 10)])"

declare str_nat.simps [simp del]

section \<open>The model provider and the library\<close>

text \<open>
  Everything the script calls but does not define is a parameter, collected in one
  record. The first argument of \<open>construct_raises\<close> and \<open>generate_text\<close> is the index
  \<^verbatim>\<open>i\<close> of the loop iteration in which the call is made: the provider may answer the
  same request differently at different times.

  \<^item> \<open>construct_raises i name sys\<close> is \<open>Some e\<close> when
    \<^verbatim>\<open>genai.GenerativeModel(model_name=name, system_instruction=sys)\<close> raises \<open>e\<close>.
  \<^item> \<open>generate_text i model prompt config\<close> is the outcome of
    \<^verbatim>\<open>model.generate_content(prompt, generation_config=config)\<close> followed by reading
    \<^verbatim>\<open>response.text\<close>: the text, or the exception either step raises (an instance of
    \<^verbatim>\<open>Exception\<close>, which is what the script's handlers catch).
  \<^item> \<open>json_loads\<close> is \<^verbatim>\<open>json.loads\<close>.
  \<^item> \<open>py_str\<close> is what an f-string writes for a value that is not a \<^verbatim>\<open>str\<close>.

  A prompt is kept as the values the script interpolates into its fixed template, so an
  answer may depend on anything the prompt text depends on.
\<close>

record model_handle =
  model_name :: string
  system_instruction :: string

datatype prompt =
    GeneratorPrompt string "json list"
  | CriticPrompt string string

record generation_config =
  temperature :: rat
  response_mime_type :: "string option"
  response_schema :: "(string \<times> string) list option"

record provider =
  construct_raises :: "nat \<Rightarrow> string \<Rightarrow> string \<Rightarrow> pyexc option"
  generate_text :: "nat \<Rightarrow> model_handle \<Rightarrow> prompt \<Rightarrow> generation_config \<Rightarrow> pyexc + string"
  json_loads :: "string \<Rightarrow> pyexc + json"
  py_str :: "json \<Rightarrow> string"

definition GenerativeModel :: "provider \<Rightarrow> nat \<Rightarrow> string \<Rightarrow> string \<Rightarrow> pyexc + model_handle" where
  "GenerativeModel p i name sys =
     (case construct_raises p i name sys of
        Some e \<Rightarrow> Inl e
      | None \<Rightarrow> Inr \<lparr>model_name = name, system_instruction = sys\<rparr>)"

text \<open>\<^verbatim>\<open>f"{v}"\<close>: a \<^verbatim>\<open>str\<close> is written as it is.\<close>

definition py_format :: "provider \<Rightarrow> json \<Rightarrow> string" where
  "py_format p v = (case v of JStr s \<Rightarrow> s | _ \<Rightarrow> py_str p v)"

text \<open>The \<^verbatim>\<open>ReviewSchema\<close> typed dict, as field names and type names.\<close>

definition ReviewSchema :: "(string \<times> string) list" where
  "ReviewSchema = [(''score'', ''int''), (''critique'', ''str''), (''improved_version'', ''str'')]"

section \<open>The two agents\<close>

definition generator_system_instruction :: string where
  "generator_system_instruction =
     ''You are a creative mathematical researcher. '' @
     ''Your goal is to propose NOVEL, non-obvious conjectures or research directions.''"

text \<open>
  \<^verbatim>\<open>agent_generator(context, current_ideas)\<close>. The handle is built outside the
  \<^verbatim>\<open>try\<close>, so an exception there leaves the function (\<open>Inl\<close>); an exception of the
  request is caught and becomes the returned text.
\<close>

definition generator_config :: generation_config where
  "generator_config =
     \<lparr>temperature = 9 / 10, response_mime_type = None, response_schema = None\<rparr>"

definition agent_generator :: "provider \<Rightarrow> nat \<Rightarrow> string \<Rightarrow> json list \<Rightarrow> pyexc + string" where
  "agent_generator p i context current_ideas =
     (case GenerativeModel p i ''gemini-2.5-flash'' generator_system_instruction of
        Inl e \<Rightarrow> Inl e
      | Inr model \<Rightarrow>
          (case generate_text p i model (GeneratorPrompt context current_ideas)
                  generator_config of
             Inr text \<Rightarrow> Inr text
           | Inl e \<Rightarrow> Inr (''Generator Error: '' @ exc_str e)))"

definition critic_system_instruction :: string where
  "critic_system_instruction =
     ''You are a strict mathematics reviewer. '' @
     ''You evaluate ideas for rigor, novelty, and clarity. '' @
     ''You output structured JSON data only.''"

text \<open>The dict of the \<^verbatim>\<open>except\<close> branch of \<^verbatim>\<open>agent_critic\<close>.\<close>

definition critic_error_review :: "string \<Rightarrow> pyexc \<Rightarrow> string \<Rightarrow> json" where
  "critic_error_review name e idea =
     JDict [(''score'', JInt 0),
            (''critique'', JStr (''Critic Error ('' @ name @ ''): '' @ exc_str e)),
            (''improved_version'', JStr idea)]"

definition critic_config :: generation_config where
  "critic_config =
     \<lparr>temperature = 1 / 10,
      response_mime_type = Some ''application/json'',
      response_schema = Some ReviewSchema\<rparr>"

text \<open>
  The first \<^verbatim>\<open>try\<close> of \<^verbatim>\<open>agent_critic\<close>: the handle for \<^verbatim>\<open>model_name\<close>, or, when
  building it raises anything (a bare \<^verbatim>\<open>except\<close>), the handle for \<^verbatim>\<open>'gemini-1.5-pro'\<close>.
  The second constructor call is in no \<^verbatim>\<open>try\<close>.
\<close>

definition critic_model :: "provider \<Rightarrow> nat \<Rightarrow> string \<Rightarrow> pyexc + model_handle" where
  "critic_model p i name =
     (case GenerativeModel p i name critic_system_instruction of
        Inr model \<Rightarrow> Inr model
      | Inl _ \<Rightarrow> GenerativeModel p i ''gemini-1.5-pro'' critic_system_instruction)"

text \<open>
  \<^verbatim>\<open>agent_critic(idea, context)\<close>. The variable \<^verbatim>\<open>model_name\<close> is assigned once, before
  the first \<^verbatim>\<open>try\<close>, and the \<^verbatim>\<open>except\<close> branch of that \<^verbatim>\<open>try\<close> does not assign it. The
  second \<^verbatim>\<open>try\<close> holds the request and \<^verbatim>\<open>json.loads\<close>; whatever \<^verbatim>\<open>json.loads\<close> returns
  is returned.
\<close>

definition agent_critic :: "provider \<Rightarrow> nat \<Rightarrow> string \<Rightarrow> string \<Rightarrow> pyexc + json" where
  "agent_critic p i idea context =
     (let name = ''gemini-2.5-flash'' in
      case critic_model p i name of
        Inl e \<Rightarrow> Inl e
      | Inr model \<Rightarrow>
          (case generate_text p i model (CriticPrompt context idea) critic_config of
             Inl e \<Rightarrow> Inr (critic_error_review name e idea)
           | Inr text \<Rightarrow>
               (case json_loads p text of
                  Inl e \<Rightarrow> Inr (critic_error_review name e idea)
                | Inr review \<Rightarrow> Inr review)))"

section \<open>The research loop\<close>

text \<open>
  The state of the loop: the two variables it assigns and the entries it has written to
  the research log. An entry holds what one expander shows: the cycle number, the score
  in its header, the draft, the critique and the verdict.
\<close>

record log_entry =
  cycle :: nat
  shown_score :: json
  draft :: string
  shown_critique :: json
  accepted :: bool

record loop_state =
  current_context :: string
  final_ideas :: "json list"
  research_log :: "log_entry list"

text \<open>The text \<^verbatim>\<open>f"\n\n[Extension {i+1}]: {review['improved_version']}"\<close>.\<close>

definition extension_block :: "provider \<Rightarrow> nat \<Rightarrow> json \<Rightarrow> string" where
  "extension_block p i v = ''\<newline>\<newline>[Extension '' @ str_nat (i + 1) @ '']: '' @ py_format p v"

text \<open>
  Step 3 of the loop body (\<^verbatim>\<open># 3. DISPLAY & DECIDE\<close>), for the loop index \<open>i\<close> (from 0).
  An exception raised here is caught nowhere and ends the script. The calls that draw
  the page (\<^verbatim>\<open>st.markdown\<close>, \<^verbatim>\<open>st.expander\<close>, the progress bar) are taken to return; what
  they show is kept in the log entry.
\<close>

definition display_and_decide ::
    "provider \<Rightarrow> nat \<Rightarrow> string \<Rightarrow> json \<Rightarrow> loop_state \<Rightarrow> pyexc + loop_state" where
  "display_and_decide p i raw_idea review st =
     (case py_get review ''score'' (JInt 0) of
        Inl e \<Rightarrow> Inl e
      | Inr header_score \<Rightarrow>
     (case py_get review ''critique'' JNull of
        Inl e \<Rightarrow> Inl e
      | Inr critique \<Rightarrow>
     (case py_get review ''score'' (JInt 0) of
        Inl e \<Rightarrow> Inl e
      | Inr score \<Rightarrow>
     (case py_ge score 7 of
        Inl e \<Rightarrow> Inl e
      | Inr ok \<Rightarrow>
          (let entry = \<lparr>cycle = i + 1, shown_score = header_score, draft = raw_idea,
                        shown_critique = critique, accepted = ok\<rparr>
           in if ok then
                (case py_getitem review ''improved_version'' of
                   Inl e \<Rightarrow> Inl e
                 | Inr improved \<Rightarrow>
                     Inr \<lparr>current_context = current_context st @ extension_block p i improved,
                          final_ideas = final_ideas st @ [improved],
                          research_log = research_log st @ [entry]\<rparr>)
              else Inr (st\<lparr>research_log := research_log st @ [entry]\<rparr>))))))"

text \<open>One pass of the loop body: generate, critique, display and decide.\<close>

definition iteration :: "provider \<Rightarrow> nat \<Rightarrow> loop_state \<Rightarrow> pyexc + loop_state" where
  "iteration p i st =
     (case agent_generator p i (current_context st) (final_ideas st) of
        Inl e \<Rightarrow> Inl e
      | Inr raw_idea \<Rightarrow>
          (case agent_critic p i raw_idea (current_context st) of
             Inl e \<Rightarrow> Inl e
           | Inr review \<Rightarrow> display_and_decide p i raw_idea review st))"

text \<open>\<^verbatim>\<open>for i in <indices>: <body>\<close>, stopping at the first uncaught exception.\<close>

fun for_each :: "provider \<Rightarrow> nat list \<Rightarrow> loop_state \<Rightarrow> pyexc + loop_state" where
  "for_each p [] st = Inr st"
| "for_each p (i # rest) st =
     (case iteration p i st of Inl e \<Rightarrow> Inl e | Inr st' \<Rightarrow> for_each p rest st')"

text \<open>
  The block under \<^verbatim>\<open>if start_btn and original_text:\<close>, from the two initial assignments
  to the end of \<^verbatim>\<open>for i in range(iterations)\<close>.
\<close>

definition research_loop :: "provider \<Rightarrow> nat \<Rightarrow> string \<Rightarrow> pyexc + loop_state" where
  "research_loop p iterations original_text =
     for_each p [0..<iterations]
       \<lparr>current_context = original_text, final_ideas = [], research_log = []\<rparr>"

section \<open>Observing a run\<close>

text \<open>
  \<open>research_loop p i seed\<close> is also the state in which iteration \<open>i\<close> of any longer run
  starts, since the loop body does not read \<^verbatim>\<open>iterations\<close> except to draw the progress
  bar. The review of iteration \<open>i\<close> is what \<^verbatim>\<open>agent_critic\<close> returns there.
\<close>

definition review_at :: "provider \<Rightarrow> string \<Rightarrow> nat \<Rightarrow> pyexc + json" where
  "review_at p seed i =
     (case research_loop p i seed of
        Inl e \<Rightarrow> Inl e
      | Inr st \<Rightarrow>
          (case agent_generator p i (current_context st) (final_ideas st) of
             Inl e \<Rightarrow> Inl e
           | Inr raw_idea \<Rightarrow> agent_critic p i raw_idea (current_context st)))"

text \<open>The test \<^verbatim>\<open>review.get('score', 0) >= 7\<close> holds (and raises nothing).\<close>

definition accepts :: "json \<Rightarrow> bool" where
  "accepts review =
     (case py_get review ''score'' (JInt 0) of
        Inl _ \<Rightarrow> False
      | Inr score \<Rightarrow> py_ge score 7 = Inr True)"

text \<open>The block that iteration \<open>i\<close> appends for a review that has an improved version.\<close>

definition block_of :: "provider \<Rightarrow> nat \<times> json \<Rightarrow> string" where
  "block_of p ir =
     (case py_getitem (snd ir) ''improved_version'' of
        Inl _ \<Rightarrow> []
      | Inr v \<Rightarrow> extension_block p (fst ir) v)"

section \<open>Providers for concrete runs\<close>

text \<open>
  A decoder given by a table of JSON texts and their values. It agrees with
  \<^verbatim>\<open>json.loads\<close> on the texts of the tables below and on the text \<^verbatim>\<open>not json\<close>, which
  \<^verbatim>\<open>json.loads\<close> refuses.
\<close>

definition loads_table :: "(string \<times> json) list \<Rightarrow> string \<Rightarrow> pyexc + json" where
  "loads_table table text =
     (case map_of table text of
        Some v \<Rightarrow> Inr v
      | None \<Rightarrow> Inl (Raised ''JSONDecodeError'' ''Expecting value''))"

text \<open>
  A provider whose constructors never raise, whose generator answers iteration \<open>i\<close> with
  \<open>gen i\<close> and whose critic answers it with \<open>crit i\<close>, decoded by \<open>loads\<close>.
\<close>

definition scripted :: "(nat \<Rightarrow> pyexc + string) \<Rightarrow> (nat \<Rightarrow> pyexc + string) \<Rightarrow>
    (string \<Rightarrow> pyexc + json) \<Rightarrow> provider" where
  "scripted gen crit loads =
     \<lparr>construct_raises = (\<lambda>i name sys. None),
      generate_text = (\<lambda>i model pr config.
         case pr of GeneratorPrompt c ideas \<Rightarrow> gen i | CriticPrompt c idea \<Rightarrow> crit i),
      json_loads = loads,
      py_str = (\<lambda>v. ''<value>'')\<rparr>"

text \<open>The review of the spec's scenario, and a provider whose critic always answers it.\<close>

definition good_review :: json where
  "good_review =
     JDict [(''score'', JInt 8), (''critique'', JStr ''Good''),
            (''improved_version'', JStr ''A, extended.'')]"

definition good_text :: string where
  \<open>good_text = ''{"score": 8, "critique": "Good", "improved_version": "A, extended."}''\<close>

definition mock_provider :: provider where
  "mock_provider =
     scripted (\<lambda>i. Inr ''draft'') (\<lambda>i. Inr good_text) (loads_table [(good_text, good_review)])"

text \<open>
  Five iterations with every kind of outcome: an accepted review, a failed generator
  request followed by a low score, a failed critic request, a critic answer that is not
  JSON, and a second accepted review.
\<close>

definition first_text :: string where
  \<open>first_text = ''{"score": 8, "critique": "Good", "improved_version": "First."}''\<close>

definition low_text :: string where
  \<open>low_text = ''{"score": 3, "critique": "Weak", "improved_version": "Low."}''\<close>

definition second_text :: string where
  \<open>second_text = ''{"score": 9, "critique": "Deep", "improved_version": "Second."}''\<close>

definition review_table :: "(string \<times> json) list" where
  "review_table =
     [(first_text, JDict [(''score'', JInt 8), (''critique'', JStr ''Good''),
                          (''improved_version'', JStr ''First.'')]),
      (low_text, JDict [(''score'', JInt 3), (''critique'', JStr ''Weak''),
                        (''improved_version'', JStr ''Low.'')]),
      (second_text, JDict [(''score'', JInt 9), (''critique'', JStr ''Deep''),
                           (''improved_version'', JStr ''Second.'')])]"

definition five_gen :: "nat \<Rightarrow> pyexc + string" where
  "five_gen i = (if i = 1 then Inl (Raised ''ResourceExhausted'' ''quota'') else Inr ''draft'')"

definition five_crit :: "nat \<Rightarrow> pyexc + string" where
  "five_crit i =
     (if i = 0 then Inr first_text
      else if i = 1 then Inr low_text
      else if i = 2 then Inl (Raised ''DeadlineExceeded'' ''timeout'')
      else if i = 3 then Inr ''not json''
      else Inr second_text)"

definition five_provider :: provider where
  "five_provider = scripted five_gen five_crit (loads_table review_table)"

definition five_final :: loop_state where
  "five_final =
     \<lparr>current_context = ''S\<newline>\<newline>[Extension 1]: First.\<newline>\<newline>[Extension 5]: Second.'',
      final_ideas = [JStr ''First.'', JStr ''Second.''],
      research_log =
        [\<lparr>cycle = 1, shown_score = JInt 8, draft = ''draft'',
          shown_critique = JStr ''Good'', accepted = True\<rparr>,
         \<lparr>cycle = 2, shown_score = JInt 3, draft = ''Generator Error: quota'',
          shown_critique = JStr ''Weak'', accepted = False\<rparr>,
         \<lparr>cycle = 3, shown_score = JInt 0, draft = ''draft'',
          shown_critique = JStr ''Critic Error (gemini-2.5-flash): timeout'', accepted = False\<rparr>,
         \<lparr>cycle = 4, shown_score = JInt 0, draft = ''draft'',
          shown_critique = JStr ''Critic Error (gemini-2.5-flash): Expecting value'',
          accepted = False\<rparr>,
         \<lparr>cycle = 5, shown_score = JInt 9, draft = ''draft'',
          shown_critique = JStr ''Deep'', accepted = True\<rparr>]\<rparr>"

text \<open>A critic whose answer has no \<^verbatim>\<open>score\<close> key.\<close>

definition unscored_text :: string where
  \<open>unscored_text = ''{"critique": "Unscored", "improved_version": "X."}''\<close>

definition unscored_provider :: provider where
  "unscored_provider =
     scripted (\<lambda>i. Inr ''draft'') (\<lambda>i. Inr unscored_text)
       (loads_table [(unscored_text,
          JDict [(''critique'', JStr ''Unscored''), (''improved_version'', JStr ''X.'')])])"

text \<open>A critic whose answer is valid JSON with a high score and no \<^verbatim>\<open>improved_version\<close>.\<close>

definition partial_text :: string where
  \<open>partial_text = ''{"score": 8, "critique": "Good"}''\<close>

definition partial_provider :: provider where
  "partial_provider =
     scripted (\<lambda>i. Inr ''draft'') (\<lambda>i. Inr partial_text)
       (loads_table [(partial_text, JDict [(''score'', JInt 8), (''critique'', JStr ''Good'')])])"

text \<open>
  The same provider with the critic's preferred model unavailable: building a handle for
  \<^verbatim>\<open>'gemini-2.5-flash'\<close> with the critic's system instruction raises.
\<close>

definition unavailable :: "provider \<Rightarrow> provider" where
  "unavailable p =
     p\<lparr>construct_raises := (\<lambda>i name sys.
          if name = ''gemini-2.5-flash'' \<and> sys = critic_system_instruction
          then Some (Raised ''NotFound'' ''model unavailable'') else None)\<rparr>"

definition direct_provider :: provider where
  "direct_provider =
     scripted (\<lambda>i. Inr ''draft'') (\<lambda>i. Inr first_text) (loads_table review_table)"

definition fallback_provider :: provider where
  "fallback_provider = unavailable direct_provider"

definition quota_provider :: provider where
  "quota_provider =
     unavailable (scripted (\<lambda>i. Inr ''draft'')
       (\<lambda>i. Inl (Raised ''ResourceExhausted'' ''quota'')) (loads_table []))"

text \<open>
  A failing critic request behind the fallback, and the same provider with the preferred
  model available.
\<close>

definition timeout_direct_provider :: provider where
  "timeout_direct_provider =
     scripted (\<lambda>i. Inr ''draft'')
       (\<lambda>i. Inl (Raised ''DeadlineExceeded'' ''timeout'')) (loads_table [])"

definition timeout_fallback_provider :: provider where
  "timeout_fallback_provider = unavailable timeout_direct_provider"

text \<open>No handle can be built for the critic, whatever the model name.\<close>

definition no_critic_provider :: provider where
  "no_critic_provider =
     (scripted (\<lambda>i. Inr ''draft'') (\<lambda>i. Inr first_text) (loads_table review_table))
       \<lparr>construct_raises := (\<lambda>i name sys.
          if sys = critic_system_instruction
          then Some (Raised ''NotFound'' ''model unavailable'') else None)\<rparr>"

text \<open>
  The provider \<open>p\<close> with one answer replaced: in iteration \<open>i\<close> the generator's request
  returns the text \<open>answer\<close>. Every other call is answered as by \<open>p\<close>.
\<close>

definition generator_answers :: "provider \<Rightarrow> nat \<Rightarrow> string \<Rightarrow> provider" where
  "generator_answers p i answer =
     p\<lparr>generate_text := (\<lambda>j model pr config.
          case pr of
            GeneratorPrompt c ideas \<Rightarrow>
              if j = i then Inr answer else generate_text p j model pr config
          | CriticPrompt c idea \<Rightarrow> generate_text p j model pr config)\<rparr>"

section \<open>The loop, step by step\<close>

lemma for_each_append:
  "for_each p (xs @ ys) st =
     (case for_each p xs st of Inl e \<Rightarrow> Inl e | Inr st' \<Rightarrow> for_each p ys st')"
  by (induction xs arbitrary: st) (auto split: sum.splits)

lemma research_loop_0:
  "research_loop p 0 seed = Inr \<lparr>current_context = seed, final_ideas = [], research_log = []\<rparr>"
  by (simp add: research_loop_def)

lemma research_loop_Suc:
  "research_loop p (Suc n) seed =
     (case research_loop p n seed of Inl e \<Rightarrow> Inl e | Inr st \<Rightarrow> iteration p n st)"
  by (simp add: research_loop_def for_each_append split: sum.splits)

lemma iteration_Inr:
  assumes "iteration p i st = Inr st'"
  obtains raw review where
    "agent_generator p i (current_context st) (final_ideas st) = Inr raw"
    "agent_critic p i raw (current_context st) = Inr review"
    "display_and_decide p i raw review st = Inr st'"
  using assms by (auto simp: iteration_def split: sum.splits)

lemma display_and_decide_accept:
  assumes "py_get review ''score'' (JInt 0) = Inr score" "py_ge score 7 = Inr True"
    "py_getitem review ''improved_version'' = Inr improved"
  shows "\<exists>critique. py_get review ''critique'' JNull = Inr critique \<and>
     display_and_decide p i raw review st =
       Inr \<lparr>current_context = current_context st @ extension_block p i improved,
            final_ideas = final_ideas st @ [improved],
            research_log = research_log st @
              [\<lparr>cycle = i + 1, shown_score = score, draft = raw,
                shown_critique = critique, accepted = True\<rparr>]\<rparr>"
  using assms by (cases review) (auto simp: display_and_decide_def)

lemma display_and_decide_reject:
  assumes "py_get review ''score'' (JInt 0) = Inr score" "py_ge score 7 = Inr False"
  shows "\<exists>critique. py_get review ''critique'' JNull = Inr critique \<and>
     display_and_decide p i raw review st =
       Inr (st\<lparr>research_log := research_log st @
              [\<lparr>cycle = i + 1, shown_score = score, draft = raw,
                shown_critique = critique, accepted = False\<rparr>]\<rparr>)"
  using assms by (cases review) (auto simp: display_and_decide_def)

lemma display_and_decide_Inr:
  assumes "display_and_decide p i raw review st = Inr st'"
  shows "\<exists>score. py_get review ''score'' (JInt 0) = Inr score \<and>
     map cycle (research_log st') = map cycle (research_log st) @ [i + 1] \<and>
     map shown_score (research_log st') = map shown_score (research_log st) @ [score] \<and>
     map accepted (research_log st') = map accepted (research_log st) @ [accepts review] \<and>
     (if accepts review
      then \<exists>improved. py_getitem review ''improved_version'' = Inr improved \<and>
             current_context st' = current_context st @ extension_block p i improved \<and>
             final_ideas st' = final_ideas st @ [improved]
      else current_context st' = current_context st \<and> final_ideas st' = final_ideas st)"
  using assms
  by (cases review) (auto simp: display_and_decide_def accepts_def Let_def split: sum.splits if_splits)

lemma review_at_step:
  assumes "research_loop p n seed = Inr st"
    "agent_generator p n (current_context st) (final_ideas st) = Inr raw"
    "agent_critic p n raw (current_context st) = Inr review"
  shows "review_at p seed n = Inr review"
  using assms by (simp add: review_at_def)

lemma run_trace:
  assumes "research_loop p n seed = Inr fin"
  shows "\<exists>rs. map (review_at p seed) [0..<n] = map Inr rs \<and>
     current_context fin =
       seed @ concat (map (block_of p) (filter (accepts \<circ> snd) (zip [0..<n] rs))) \<and>
     map Inr (final_ideas fin) =
       map (\<lambda>r. py_getitem r ''improved_version'') (filter accepts rs) \<and>
     map cycle (research_log fin) = [1..<n + 1] \<and>
     map (Inr \<circ> shown_score) (research_log fin) = map (\<lambda>r. py_get r ''score'' (JInt 0)) rs \<and>
     map accepted (research_log fin) = map accepts rs"
  using assms
proof (induction n arbitrary: fin)
  case 0
  then show ?case by (auto simp: research_loop_0)
next
  case (Suc n)
  from Suc.prems obtain st where st: "research_loop p n seed = Inr st"
    and it: "iteration p n st = Inr fin"
    by (auto simp: research_loop_Suc split: sum.splits)
  from it obtain raw review where
    gen: "agent_generator p n (current_context st) (final_ideas st) = Inr raw" and
    crit: "agent_critic p n raw (current_context st) = Inr review" and
    dec: "display_and_decide p n raw review st = Inr fin"
    by (rule iteration_Inr)
  from Suc.IH [OF st] obtain rs where
    rs: "map (review_at p seed) [0..<n] = map Inr rs" and
    ctx: "current_context st =
       seed @ concat (map (block_of p) (filter (accepts \<circ> snd) (zip [0..<n] rs)))" and
    ideas: "map Inr (final_ideas st) =
       map (\<lambda>r. py_getitem r ''improved_version'') (filter accepts rs)" and
    cyc: "map cycle (research_log st) = [1..<n + 1]" and
    sco: "map (Inr \<circ> shown_score) (research_log st) = map (\<lambda>r. py_get r ''score'' (JInt 0)) rs" and
    acc: "map accepted (research_log st) = map accepts rs"
    by blast
  have len: "length rs = n"
    using arg_cong [OF rs, of length] by simp
  have rev: "review_at p seed n = Inr review"
    by (rule review_at_step [OF st gen crit])
  from display_and_decide_Inr [OF dec] obtain score where
    score: "py_get review ''score'' (JInt 0) = Inr score" and
    cyc': "map cycle (research_log fin) = map cycle (research_log st) @ [n + 1]" and
    sco': "map shown_score (research_log fin) = map shown_score (research_log st) @ [score]" and
    acc': "map accepted (research_log fin) = map accepted (research_log st) @ [accepts review]" and
    eff: "if accepts review
      then \<exists>improved. py_getitem review ''improved_version'' = Inr improved \<and>
             current_context fin = current_context st @ extension_block p n improved \<and>
             final_ideas fin = final_ideas st @ [improved]
      else current_context fin = current_context st \<and> final_ideas fin = final_ideas st"
    by blast
  let ?rs = "rs @ [review]"
  have zip: "zip [0..<Suc n] ?rs = zip [0..<n] rs @ [(n, review)]"
    using len by simp
  have 1: "map (review_at p seed) [0..<Suc n] = map Inr ?rs"
    using rs rev by simp
  have 2: "current_context fin =
       seed @ concat (map (block_of p) (filter (accepts \<circ> snd) (zip [0..<Suc n] ?rs)))"
    using eff ctx unfolding zip by (auto simp: block_of_def)
  have 3: "map Inr (final_ideas fin) =
       map (\<lambda>r. py_getitem r ''improved_version'') (filter accepts ?rs)"
    using eff ideas by auto
  have 4: "map cycle (research_log fin) = [1..<Suc n + 1]"
    using cyc cyc' by simp
  have 5: "map (Inr \<circ> shown_score) (research_log fin) =
      map (\<lambda>r. py_get r ''score'' (JInt 0)) ?rs"
    using sco score arg_cong [OF sco', of "map (Inr :: json \<Rightarrow> pyexc + json)"] by simp
  have 6: "map accepted (research_log fin) = map accepts ?rs"
    using acc acc' by simp
  from 1 2 3 4 5 6 show ?case by blast
qed

section \<open>Concrete runs\<close>

lemmas run_defs = research_loop_def scripted_def iteration_def agent_generator_def
  agent_critic_def critic_model_def GenerativeModel_def display_and_decide_def
  extension_block_def py_format_def loads_table_def critic_error_review_def

lemma five_run: "research_loop five_provider 5 ''S'' = Inr five_final"
  by (simp add: run_defs five_provider_def five_gen_def five_crit_def review_table_def
      first_text_def low_text_def second_text_def five_final_def str_nat.simps upt_rec)

lemma mock_run: "research_loop mock_provider 1 ''A.'' =
   Inr \<lparr>current_context = ''A.\<newline>\<newline>[Extension 1]: A, extended.'',
        final_ideas = [JStr ''A, extended.''],
        research_log = [\<lparr>cycle = 1, shown_score = JInt 8, draft = ''draft'',
          shown_critique = JStr ''Good'', accepted = True\<rparr>]\<rparr>"
  by (simp add: run_defs mock_provider_def good_text_def good_review_def str_nat.simps upt_rec)

section \<open>Accepting and rejecting\<close>

text \<open>
  C1. In every iteration whose review is a dict with an integer score (and, when the
  score is at least 7, a text \<open>improved_version\<close>): if the score is at least 7, the loop
  appends \<^verbatim>\<open>"\n\n[Extension i]: "\<close> and the improved version to the context, with \<open>i\<close> the
  1-based number of the iteration (the loop index plus one), and appends the improved
  version to the accepted ideas; if the score is below 7 it changes neither. In
  particular, with the seed \<^verbatim>\<open>"A."\<close>, one iteration and a critic that returns the review
  \<^verbatim>\<open>{score: 8, critique: "Good", improved_version: "A, extended."}\<close>, the final context is
  \<^verbatim>\<open>"A.\n\n[Extension 1]: A, extended."\<close> and the accepted ideas are \<^verbatim>\<open>["A, extended."]\<close>.
\<close>

theorem iteration_accepts_at_seven:
  "(agent_generator p i (current_context st) (final_ideas st) = Inr raw \<longrightarrow>
    agent_critic p i raw (current_context st) = Inr (JDict kvs) \<longrightarrow>
    map_of kvs ''score'' = Some (JInt n) \<longrightarrow>
    (7 \<le> n \<longrightarrow> map_of kvs ''improved_version'' = Some (JStr s)) \<longrightarrow>
    (\<exists>st'. iteration p i st = Inr st' \<and>
       (7 \<le> n \<longrightarrow>
          current_context st' =
            current_context st @ ''\<newline>\<newline>[Extension '' @ str_nat (i + 1) @ '']: '' @ s \<and>
          final_ideas st' = final_ideas st @ [JStr s]) \<and>
       (n < 7 \<longrightarrow>
          current_context st' = current_context st \<and> final_ideas st' = final_ideas st))) \<and>
   (agent_generator q 0 ''A.'' [] = Inr raw0 \<longrightarrow>
    agent_critic q 0 raw0 ''A.'' =
      Inr (JDict [(''score'', JInt 8), (''critique'', JStr ''Good''),
                  (''improved_version'', JStr ''A, extended.'')]) \<longrightarrow>
    (\<exists>fin. research_loop q 1 ''A.'' = Inr fin \<and>
       current_context fin = ''A.\<newline>\<newline>[Extension 1]: A, extended.'' \<and>
       final_ideas fin = [JStr ''A, extended.'']))"
proof (intro conjI impI)
  assume gen: "agent_generator p i (current_context st) (final_ideas st) = Inr raw"
    and crit: "agent_critic p i raw (current_context st) = Inr (JDict kvs)"
    and score: "map_of kvs ''score'' = Some (JInt n)"
    and improved: "7 \<le> n \<longrightarrow> map_of kvs ''improved_version'' = Some (JStr s)"
  have get: "py_get (JDict kvs) ''score'' (JInt 0) = Inr (JInt n)"
    using score by simp
  show "\<exists>st'. iteration p i st = Inr st' \<and>
       (7 \<le> n \<longrightarrow>
          current_context st' =
            current_context st @ ''\<newline>\<newline>[Extension '' @ str_nat (i + 1) @ '']: '' @ s \<and>
          final_ideas st' = final_ideas st @ [JStr s]) \<and>
       (n < 7 \<longrightarrow>
          current_context st' = current_context st \<and> final_ideas st' = final_ideas st)"
  proof (cases "7 \<le> n")
    case True
    then have item: "py_getitem (JDict kvs) ''improved_version'' = Inr (JStr s)"
      using improved by simp
    have ge: "py_ge (JInt n) 7 = Inr True" using True by simp
    from display_and_decide_accept [OF get ge item, of p i raw st]
    show ?thesis using True gen crit
      by (auto simp: iteration_def extension_block_def py_format_def)
  next
    case False
    then have ge: "py_ge (JInt n) 7 = Inr False" by simp
    from display_and_decide_reject [OF get ge, of p i raw st]
    show ?thesis using False gen crit
      by (auto simp: iteration_def)
  qed
next
  assume gen: "agent_generator q 0 ''A.'' [] = Inr raw0"
    and crit: "agent_critic q 0 raw0 ''A.'' =
      Inr (JDict [(''score'', JInt 8), (''critique'', JStr ''Good''),
                  (''improved_version'', JStr ''A, extended.'')])"
  show "\<exists>fin. research_loop q 1 ''A.'' = Inr fin \<and>
       current_context fin = ''A.\<newline>\<newline>[Extension 1]: A, extended.'' \<and>
       final_ideas fin = [JStr ''A, extended.'']"
    using gen crit
    by (simp add: research_loop_def iteration_def display_and_decide_def extension_block_def
        py_format_def str_nat.simps)
qed

theorem iteration_accepts_at_seven_witness:
  "(\<exists>st'. iteration mock_provider 0
             \<lparr>current_context = ''A.'', final_ideas = [], research_log = []\<rparr> = Inr st' \<and>
      current_context st' = ''A.\<newline>\<newline>[Extension 1]: A, extended.'' \<and>
      final_ideas st' = [JStr ''A, extended.'']) \<and>
   (\<exists>fin. research_loop mock_provider 1 ''A.'' = Inr fin \<and>
      current_context fin = ''A.\<newline>\<newline>[Extension 1]: A, extended.'' \<and>
      final_ideas fin = [JStr ''A, extended.''])"
  using iteration_accepts_at_seven [of mock_provider 0
      "\<lparr>current_context = ''A.'', final_ideas = [], research_log = []\<rparr>" "''draft''"
      "[(''score'', JInt 8), (''critique'', JStr ''Good''),
        (''improved_version'', JStr ''A, extended.'')]" 8 "''A, extended.''"
      mock_provider "''draft''"]
  by (simp add: agent_generator_def agent_critic_def critic_model_def GenerativeModel_def
      mock_provider_def scripted_def loads_table_def good_text_def good_review_def
      str_nat.simps)

lemma py_get_missing_score:
  "map_of kvs ''score'' = None \<Longrightarrow> py_get (JDict kvs) ''score'' (JInt 0) = Inr (JInt 0)"
  by simp

text \<open>
  C10. When the critic returns a review dict that has no \<open>score\<close> key, the acceptance
  test reads the score as 0: the iteration is rejected, the log entry shows the score 0,
  and the context and the accepted ideas stay as they were (only the log grows).
\<close>

theorem missing_score_counts_as_zero:
  assumes gen: "agent_generator p i (current_context st) (final_ideas st) = Inr raw"
    and crit: "agent_critic p i raw (current_context st) = Inr (JDict kvs)"
    and missing: "map_of kvs ''score'' = None"
  shows "\<exists>entry. iteration p i st = Inr (st\<lparr>research_log := research_log st @ [entry]\<rparr>) \<and>
     shown_score entry = JInt 0 \<and> \<not> accepted entry \<and> \<not> accepts (JDict kvs)"
proof -
  have get: "py_get (JDict kvs) ''score'' (JInt 0) = Inr (JInt 0)"
    using missing by (rule py_get_missing_score)
  have ge: "py_ge (JInt 0) 7 = Inr False" by simp
  from display_and_decide_reject [OF get ge, of p i raw st]
  show ?thesis using gen crit missing
    by (auto simp: iteration_def accepts_def)
qed

theorem missing_score_counts_as_zero_witness:
  "\<exists>entry. iteration unscored_provider 0
       \<lparr>current_context = ''A.'', final_ideas = [], research_log = []\<rparr> =
     Inr \<lparr>current_context = ''A.'', final_ideas = [], research_log = [entry]\<rparr> \<and>
     shown_score entry = JInt 0 \<and> \<not> accepted entry"
proof -
  let ?st = "\<lparr>current_context = ''A.'', final_ideas = [], research_log = []\<rparr>"
  let ?kvs = "[(''critique'', JStr ''Unscored''), (''improved_version'', JStr ''X.'')]"
  have gen: "agent_generator unscored_provider 0 (current_context ?st) (final_ideas ?st) =
      Inr ''draft''"
    by (simp add: agent_generator_def GenerativeModel_def unscored_provider_def scripted_def)
  have crit: "agent_critic unscored_provider 0 ''draft'' (current_context ?st) =
      Inr (JDict ?kvs)"
    by (simp add: agent_critic_def critic_model_def GenerativeModel_def
        unscored_provider_def scripted_def loads_table_def)
  have missing: "map_of ?kvs ''score'' = None"
    by simp
  from missing_score_counts_as_zero [OF gen crit missing]
  show ?thesis by auto
qed

section \<open>Failures of the generator\<close>

text \<open>
  Replacing the generator's answer of iteration \<open>i\<close> touches no other call, and a run splits
  at any of its iterations into the iterations before it, that iteration and the rest
  of the loop.
\<close>

lemma generator_answers_fields:
  "construct_raises (generator_answers p i answer) = construct_raises p"
  "json_loads (generator_answers p i answer) = json_loads p"
  "py_str (generator_answers p i answer) = py_str p"
  "generate_text (generator_answers p i answer) j m (CriticPrompt c idea) cfg =
     generate_text p j m (CriticPrompt c idea) cfg"
  "generate_text (generator_answers p i answer) j m (GeneratorPrompt c ideas) cfg =
     (if j = i then Inr answer else generate_text p j m (GeneratorPrompt c ideas) cfg)"
  by (simp_all add: generator_answers_def)

lemma generator_answers_model:
  "GenerativeModel (generator_answers p i answer) j name sys = GenerativeModel p j name sys"
  by (simp add: GenerativeModel_def generator_answers_fields)

lemma generator_answers_critic:
  "agent_critic (generator_answers p i answer) j idea c = agent_critic p j idea c"
  by (simp add: agent_critic_def critic_model_def generator_answers_model
      generator_answers_fields cong: sum.case_cong)

lemma generator_answers_decide:
  "display_and_decide (generator_answers p i answer) j raw review s =
   display_and_decide p j raw review s"
  by (simp add: display_and_decide_def extension_block_def py_format_def
      generator_answers_fields cong: sum.case_cong json.case_cong if_cong)

lemma generator_answers_other:
  "j \<noteq> i \<Longrightarrow> agent_generator (generator_answers p i answer) j c ideas = agent_generator p j c ideas"
  by (simp add: agent_generator_def generator_answers_model generator_answers_fields
      cong: sum.case_cong)

lemma generator_answers_iteration_other:
  "j \<noteq> i \<Longrightarrow> iteration (generator_answers p i answer) j s = iteration p j s"
  by (simp add: iteration_def generator_answers_other generator_answers_critic
      generator_answers_decide cong: sum.case_cong)

lemma generator_answers_iteration_same:
  assumes "agent_generator p i (current_context s) (final_ideas s) = Inr answer"
    and "construct_raises p i ''gemini-2.5-flash'' generator_system_instruction = None"
  shows "iteration (generator_answers p i answer) i s = iteration p i s"
proof -
  have "agent_generator (generator_answers p i answer) i (current_context s) (final_ideas s) =
      Inr answer"
    using assms(2)
    by (simp add: agent_generator_def GenerativeModel_def generator_answers_fields)
  then show ?thesis
    using assms(1)
    by (simp add: iteration_def generator_answers_critic generator_answers_decide
        cong: sum.case_cong)
qed

lemma generator_answers_run:
  assumes reached: "research_loop p i seed = Inr st"
    and gen: "agent_generator p i (current_context st) (final_ideas st) = Inr answer"
    and built: "construct_raises p i ''gemini-2.5-flash'' generator_system_instruction = None"
  shows "research_loop (generator_answers p i answer) n seed = research_loop p n seed"
proof (induction n)
  case 0
  show ?case by (simp add: research_loop_0)
next
  case (Suc n)
  show ?case
  proof (cases "research_loop p n seed")
    case (Inl x)
    then show ?thesis using Suc by (simp add: research_loop_Suc)
  next
    case (Inr s)
    have "iteration (generator_answers p i answer) n s = iteration p n s"
    proof (cases "n = i")
      case True
      then have "s = st" using Inr reached by simp
      then show ?thesis
        using True generator_answers_iteration_same [OF _ built, of st answer] gen by simp
    next
      case False
      then show ?thesis by (rule generator_answers_iteration_other)
    qed
    then show ?thesis using Suc Inr by (simp add: research_loop_Suc)
  qed
qed

lemma research_loop_split:
  assumes "i < n"
  shows "research_loop p n seed =
     (case research_loop p i seed of
        Inl x \<Rightarrow> Inl x
      | Inr st \<Rightarrow>
          (case iteration p i st of Inl x \<Rightarrow> Inl x | Inr st' \<Rightarrow> for_each p [Suc i..<n] st'))"
proof -
  have "[0..<n] = [0..<i] @ [i..<n]"
    using assms upt_add_eq_append [of 0 i "n - i"] by simp
  moreover have "[i..<n] = i # [Suc i..<n]"
    using assms by (simp add: upt_conv_Cons)
  ultimately have "[0..<n] = [0..<i] @ i # [Suc i..<n]"
    by simp
  then show ?thesis
    by (simp add: research_loop_def for_each_append split: sum.splits)
qed

text \<open>
  C7. When the generator's request raises an error \<open>e\<close> in iteration \<open>i\<close> (its handle having
  been built), \<^verbatim>\<open>agent_generator\<close> returns the text \<^verbatim>\<open>"Generator Error: "\<close> followed by
  \<^verbatim>\<open>str(e)\<close>, which is not empty, and the iteration goes on exactly as for any other
  candidate: that text is the idea passed to \<^verbatim>\<open>agent_critic\<close> and the draft shown and
  decided on. The run continues: when a run reaches iteration \<open>i\<close> in the state \<open>st\<close>, the
  review of iteration \<open>i\<close> is the critic's review of that text; a run of \<open>n > i\<close> iterations
  is the critic call and the decision on that text followed by the rest of the loop,
  iterations \<open>i + 1, \<dots>, n - 1\<close>; and every run is, step for step, the run of the provider
  whose generator answered that text in iteration \<open>i\<close> without failing.
\<close>

theorem generator_error_is_the_candidate:
  assumes built: "construct_raises p i ''gemini-2.5-flash'' generator_system_instruction = None"
    and failed: "generate_text p i
        \<lparr>model_name = ''gemini-2.5-flash'', system_instruction = generator_system_instruction\<rparr>
        (GeneratorPrompt (current_context st) (final_ideas st)) generator_config = Inl e"
  shows "agent_generator p i (current_context st) (final_ideas st) =
       Inr (''Generator Error: '' @ exc_str e) \<and>
     ''Generator Error: '' @ exc_str e \<noteq> [] \<and>
     iteration p i st =
       (case agent_critic p i (''Generator Error: '' @ exc_str e) (current_context st) of
          Inl x \<Rightarrow> Inl x
        | Inr review \<Rightarrow>
            display_and_decide p i (''Generator Error: '' @ exc_str e) review st) \<and>
     (research_loop p i seed = Inr st \<longrightarrow>
        review_at p seed i =
          agent_critic p i (''Generator Error: '' @ exc_str e) (current_context st) \<and>
        (i < n \<longrightarrow>
           research_loop p n seed =
             (case agent_critic p i (''Generator Error: '' @ exc_str e) (current_context st) of
                Inl x \<Rightarrow> Inl x
              | Inr review \<Rightarrow>
                  (case display_and_decide p i (''Generator Error: '' @ exc_str e) review st of
                     Inl x \<Rightarrow> Inl x
                   | Inr st' \<Rightarrow> for_each p [Suc i..<n] st'))) \<and>
        research_loop (generator_answers p i (''Generator Error: '' @ exc_str e)) n seed =
          research_loop p n seed)"
proof -
  define g where "g = ''Generator Error: '' @ exc_str e"
  have nonempty: "g \<noteq> []"
    by (simp add: g_def)
  have gen: "agent_generator p i (current_context st) (final_ideas st) = Inr g"
    using built failed by (simp add: agent_generator_def GenerativeModel_def g_def)
  have it: "iteration p i st =
       (case agent_critic p i g (current_context st) of
          Inl x \<Rightarrow> Inl x
        | Inr review \<Rightarrow> display_and_decide p i g review st)"
    by (simp only: iteration_def gen sum.case)
  have run: "review_at p seed i = agent_critic p i g (current_context st) \<and>
        (i < n \<longrightarrow>
           research_loop p n seed =
             (case agent_critic p i g (current_context st) of
                Inl x \<Rightarrow> Inl x
              | Inr review \<Rightarrow>
                  (case display_and_decide p i g review st of
                     Inl x \<Rightarrow> Inl x
                   | Inr st' \<Rightarrow> for_each p [Suc i..<n] st'))) \<and>
        research_loop (generator_answers p i g) n seed = research_loop p n seed"
    if reached: "research_loop p i seed = Inr st"
  proof (intro conjI impI)
    show "review_at p seed i = agent_critic p i g (current_context st)"
      by (simp only: review_at_def reached gen sum.case)
    show "research_loop (generator_answers p i g) n seed = research_loop p n seed"
      by (rule generator_answers_run [OF reached gen built])
    assume "i < n"
    from research_loop_split [OF this, of p seed]
    have "research_loop p n seed =
        (case iteration p i st of Inl x \<Rightarrow> Inl x | Inr st' \<Rightarrow> for_each p [Suc i..<n] st')"
      by (simp only: reached sum.case)
    then show "research_loop p n seed =
             (case agent_critic p i g (current_context st) of
                Inl x \<Rightarrow> Inl x
              | Inr review \<Rightarrow>
                  (case display_and_decide p i g review st of
                     Inl x \<Rightarrow> Inl x
                   | Inr st' \<Rightarrow> for_each p [Suc i..<n] st'))"
      by (simp add: it split: sum.splits)
  qed
  from nonempty gen it run show ?thesis
    unfolding g_def by blast
qed

theorem generator_error_is_the_candidate_witness:
  "agent_generator five_provider 1 ''S\<newline>\<newline>[Extension 1]: First.'' [JStr ''First.''] =
     Inr ''Generator Error: quota'' \<and>
   review_at five_provider ''S'' 1 =
     Inr (JDict [(''score'', JInt 3), (''critique'', JStr ''Weak''),
                 (''improved_version'', JStr ''Low.'')]) \<and>
   research_loop five_provider 5 ''S'' = Inr five_final \<and>
   research_loop (generator_answers five_provider 1 ''Generator Error: quota'') 5 ''S'' =
     Inr five_final"
proof -
  let ?st = "\<lparr>current_context = ''S\<newline>\<newline>[Extension 1]: First.'',
      final_ideas = [JStr ''First.''],
      research_log = [\<lparr>cycle = 1, shown_score = JInt 8, draft = ''draft'',
          shown_critique = JStr ''Good'', accepted = True\<rparr>]\<rparr>"
  let ?e = "Raised ''ResourceExhausted'' ''quota''"
  have reached: "research_loop five_provider 1 ''S'' = Inr ?st"
    by (simp add: run_defs five_provider_def five_gen_def five_crit_def review_table_def
        first_text_def low_text_def second_text_def str_nat.simps upt_rec)
  have built: "construct_raises five_provider 1 ''gemini-2.5-flash''
      generator_system_instruction = None"
    by (simp add: five_provider_def scripted_def)
  have failed: "generate_text five_provider 1
        \<lparr>model_name = ''gemini-2.5-flash'', system_instruction = generator_system_instruction\<rparr>
        (GeneratorPrompt (current_context ?st) (final_ideas ?st)) generator_config = Inl ?e"
    by (simp add: five_provider_def scripted_def five_gen_def)
  have crit: "agent_critic five_provider 1 ''Generator Error: quota'' (current_context ?st) =
      Inr (JDict [(''score'', JInt 3), (''critique'', JStr ''Weak''),
                  (''improved_version'', JStr ''Low.'')])"
    by (simp add: agent_critic_def critic_model_def GenerativeModel_def five_provider_def
        scripted_def five_crit_def loads_table_def review_table_def first_text_def low_text_def)
  have less: "(1::nat) < 5" by simp
  note claim = generator_error_is_the_candidate [OF built failed, of "''S''" 5]
  from claim have 1: "agent_generator five_provider 1 ''S\<newline>\<newline>[Extension 1]: First.''
      [JStr ''First.''] = Inr ''Generator Error: quota''"
    by simp
  from claim reached crit have 2: "review_at five_provider ''S'' 1 =
     Inr (JDict [(''score'', JInt 3), (''critique'', JStr ''Weak''),
                 (''improved_version'', JStr ''Low.'')])"
    by simp
  from claim reached have 3: "research_loop (generator_answers five_provider 1
      ''Generator Error: quota'') 5 ''S'' = research_loop five_provider 5 ''S''"
    by simp
  from 1 2 3 five_run show ?thesis by simp
qed

section \<open>Whole runs\<close>

lemma research_loop_prefix:
  assumes "research_loop p n seed = Inr fin" "k \<le> n"
  shows "\<exists>s. research_loop p k seed = Inr s"
  using assms
proof (induction n arbitrary: fin)
  case 0
  then show ?case by simp
next
  case (Suc n)
  show ?case
  proof (cases "k = Suc n")
    case True
    then show ?thesis using Suc.prems by simp
  next
    case False
    then have "k \<le> n" using Suc.prems by simp
    moreover from Suc.prems obtain st where "research_loop p n seed = Inr st"
      by (auto simp: research_loop_Suc split: sum.splits)
    ultimately show ?thesis using Suc.IH by blast
  qed
qed

lemma iteration_context_grows:
  assumes "iteration p i st = Inr st'"
  shows "length (current_context st) \<le> length (current_context st')"
proof -
  from assms obtain raw review where "display_and_decide p i raw review st = Inr st'"
    by (rule iteration_Inr)
  from display_and_decide_Inr [OF this] show ?thesis
    by (auto split: if_splits)
qed

text \<open>
  C4. At the end of a completed run of \<open>n\<close> iterations, the accepted ideas are exactly the
  \<open>improved_version\<close> values of the reviews of iterations \<open>0, \<dots>, n - 1\<close> whose score (0 when
  absent) is at least 7, in the order of the iterations: every iteration has a review,
  every accepted review has an improved version, and the list of those is the list of
  accepted ideas.
\<close>

theorem accepted_ideas_are_the_accepted_reviews:
  assumes "research_loop p n seed = Inr fin"
  shows "\<exists>rs. map (review_at p seed) [0..<n] = map Inr rs \<and>
     map Inr (final_ideas fin) =
       map (\<lambda>r. py_getitem r ''improved_version'') (filter accepts rs)"
  using run_trace [OF assms] by blast

theorem accepted_ideas_are_the_accepted_reviews_witness:
  "\<exists>rs. map (review_at five_provider ''S'') [0..<5] = map Inr rs \<and>
     map Inr [JStr ''First.'', JStr ''Second.''] =
       map (\<lambda>r. py_getitem r ''improved_version'') (filter accepts rs)"
  using accepted_ideas_are_the_accepted_reviews [OF five_run]
  by (simp add: five_final_def)

text \<open>
  C5. In a completed run the length of the context never decreases from one iteration to
  the next, and the length of the final context is the length of the seed text plus the
  sum, over the accepted iterations, of the lengths of the blocks
  \<^verbatim>\<open>"\n\n[Extension i]: " + improved_version\<close> appended for them.
\<close>

theorem context_length_is_seed_plus_blocks:
  assumes "research_loop p n seed = Inr fin"
  shows "(\<forall>k<n. \<exists>s s'. research_loop p k seed = Inr s \<and>
            research_loop p (Suc k) seed = Inr s' \<and>
            length (current_context s) \<le> length (current_context s')) \<and>
     (\<exists>rs. map (review_at p seed) [0..<n] = map Inr rs \<and>
        (\<forall>r\<in>set rs. accepts r \<longrightarrow> (\<exists>v. py_getitem r ''improved_version'' = Inr v)) \<and>
        length (current_context fin) =
          length seed +
          sum_list (map (length \<circ> block_of p) (filter (accepts \<circ> snd) (zip [0..<n] rs))))"
proof (intro conjI allI impI)
  fix k assume "k < n"
  then have "Suc k \<le> n" by simp
  from research_loop_prefix [OF assms this] obtain s' where
    s': "research_loop p (Suc k) seed = Inr s'" by blast
  then obtain s where s: "research_loop p k seed = Inr s" and it: "iteration p k s = Inr s'"
    by (auto simp: research_loop_Suc split: sum.splits)
  from iteration_context_grows [OF it] s s'
  show "\<exists>s s'. research_loop p k seed = Inr s \<and> research_loop p (Suc k) seed = Inr s' \<and>
      length (current_context s) \<le> length (current_context s')"
    by blast
next
  from run_trace [OF assms] obtain rs where
    rs: "map (review_at p seed) [0..<n] = map Inr rs" and
    ctx: "current_context fin =
       seed @ concat (map (block_of p) (filter (accepts \<circ> snd) (zip [0..<n] rs)))" and
    ideas: "map Inr (final_ideas fin) =
       map (\<lambda>r. py_getitem r ''improved_version'') (filter accepts rs)"
    by blast
  have has: "\<forall>r\<in>set rs. accepts r \<longrightarrow> (\<exists>v. py_getitem r ''improved_version'' = Inr v)"
  proof (intro ballI impI)
    fix r assume "r \<in> set rs" "accepts r"
    then have "py_getitem r ''improved_version'' \<in>
        set (map (\<lambda>r. py_getitem r ''improved_version'') (filter accepts rs))"
      by simp
    then have "py_getitem r ''improved_version'' \<in> set (map Inr (final_ideas fin))"
      using ideas by simp
    then show "\<exists>v. py_getitem r ''improved_version'' = Inr v"
      by auto
  qed
  have len: "length (current_context fin) =
      length seed +
      sum_list (map (length \<circ> block_of p) (filter (accepts \<circ> snd) (zip [0..<n] rs)))"
    unfolding ctx by (simp add: length_concat comp_def)
  from rs has len
  show "\<exists>rs. map (review_at p seed) [0..<n] = map Inr rs \<and>
        (\<forall>r\<in>set rs. accepts r \<longrightarrow> (\<exists>v. py_getitem r ''improved_version'' = Inr v)) \<and>
        length (current_context fin) =
          length seed +
          sum_list (map (length \<circ> block_of p) (filter (accepts \<circ> snd) (zip [0..<n] rs)))"
    by blast
qed

theorem context_length_is_seed_plus_blocks_witness:
  "research_loop five_provider 5 ''S'' = Inr five_final \<and>
   (\<exists>s s'. research_loop five_provider 4 ''S'' = Inr s \<and>
      research_loop five_provider 5 ''S'' = Inr s' \<and>
      length (current_context s) \<le> length (current_context s')) \<and>
   (\<exists>rs. map (review_at five_provider ''S'') [0..<5] = map Inr rs \<and>
      length ''S\<newline>\<newline>[Extension 1]: First.\<newline>\<newline>[Extension 5]: Second.'' =
        length ''S'' +
        sum_list (map (length \<circ> block_of five_provider)
          (filter (accepts \<circ> snd) (zip [0..<5] rs))))"
proof -
  note claim = context_length_is_seed_plus_blocks [OF five_run]
  have "(4::nat) < 5" by simp
  with claim have "\<exists>s s'. research_loop five_provider 4 ''S'' = Inr s \<and>
      research_loop five_provider (Suc 4) ''S'' = Inr s' \<and>
      length (current_context s) \<le> length (current_context s')"
    by blast
  moreover have "Suc 4 = 5" by simp
  ultimately have step: "\<exists>s s'. research_loop five_provider 4 ''S'' = Inr s \<and>
      research_loop five_provider 5 ''S'' = Inr s' \<and>
      length (current_context s) \<le> length (current_context s')"
    by simp
  from claim obtain rs where
    "map (review_at five_provider ''S'') [0..<5] = map Inr rs"
    "length (current_context five_final) =
       length ''S'' +
       sum_list (map (length \<circ> block_of five_provider)
         (filter (accepts \<circ> snd) (zip [0..<5] rs)))"
    by blast
  then have total: "\<exists>rs. map (review_at five_provider ''S'') [0..<5] = map Inr rs \<and>
      length ''S\<newline>\<newline>[Extension 1]: First.\<newline>\<newline>[Extension 5]: Second.'' =
        length ''S'' +
        sum_list (map (length \<circ> block_of five_provider)
          (filter (accepts \<circ> snd) (zip [0..<5] rs)))"
    unfolding five_final_def by (intro exI [of _ rs]) simp
  from five_run step total show ?thesis by blast
qed

text \<open>
  C8. A completed run of \<open>n\<close> iterations (for every \<open>n\<close>, so for every value 1 to 10 of
  the slider) has run each iteration once and has written exactly \<open>n\<close> log entries, for
  the cycles \<open>1, \<dots>, n\<close> in this order; each entry shows a score, the review's score or 0
  when the review has none, whether the iteration was accepted, rejected or had a
  failed request.
\<close>

theorem completed_run_has_one_entry_per_iteration:
  assumes "research_loop p n seed = Inr fin"
  shows "length (research_log fin) = n \<and>
     map cycle (research_log fin) = [1..<n + 1] \<and>
     (\<exists>rs. map (review_at p seed) [0..<n] = map Inr rs \<and>
        map (Inr \<circ> shown_score) (research_log fin) =
          map (\<lambda>r. py_get r ''score'' (JInt 0)) rs)"
proof -
  from run_trace [OF assms] obtain rs where
    rs: "map (review_at p seed) [0..<n] = map Inr rs" and
    cyc: "map cycle (research_log fin) = [1..<n + 1]" and
    sco: "map (Inr \<circ> shown_score) (research_log fin) =
          map (\<lambda>r. py_get r ''score'' (JInt 0)) rs"
    by blast
  have "length (research_log fin) = n"
    using arg_cong [OF cyc, of length] by simp
  with rs cyc sco show ?thesis by blast
qed

theorem completed_run_has_one_entry_per_iteration_witness:
  "research_loop five_provider 5 ''S'' = Inr five_final \<and>
   length (research_log five_final) = 5 \<and>
   map cycle (research_log five_final) = [1, 2, 3, 4, 5] \<and>
   (\<exists>rs. map (review_at five_provider ''S'') [0..<5] = map Inr rs \<and>
      map Inr [JInt 8, JInt 3, JInt 0, JInt 0, JInt 9] =
        map (\<lambda>r. py_get r ''score'' (JInt 0)) rs)"
  using completed_run_has_one_entry_per_iteration [OF five_run] five_run
  by (simp add: five_final_def upt_rec)

section \<open>Failures of the critic\<close>

text \<open>
  What \<^verbatim>\<open>agent_critic\<close> returns once it has a handle: the dict of its \<^verbatim>\<open>except\<close> branch when
  the request or \<^verbatim>\<open>json.loads\<close> raises, the decoded value otherwise. The loop rejects the
  dict of the \<^verbatim>\<open>except\<close> branch, whose score is 0.
\<close>

lemma critic_failure_review:
  assumes "critic_model p i ''gemini-2.5-flash'' = Inr m"
    and "generate_text p i m (CriticPrompt context idea) critic_config = Inl e \<or>
      (\<exists>text. generate_text p i m (CriticPrompt context idea) critic_config = Inr text \<and>
        json_loads p text = Inl e)"
  shows "agent_critic p i idea context = Inr (critic_error_review ''gemini-2.5-flash'' e idea)"
  using assms by (auto simp: agent_critic_def)

lemma critic_decoded_review:
  assumes "critic_model p i ''gemini-2.5-flash'' = Inr m"
    and "generate_text p i m (CriticPrompt context idea) critic_config = Inr text"
    and "json_loads p text = Inr v"
  shows "agent_critic p i idea context = Inr v"
  using assms by (simp add: agent_critic_def)

lemma error_review_fields:
  "py_get (critic_error_review name e idea) ''score'' (JInt 0) = Inr (JInt 0)"
  "py_getitem (critic_error_review name e idea) ''improved_version'' = Inr (JStr idea)"
  "py_getitem (critic_error_review name e idea) ''critique'' =
     Inr (JStr (''Critic Error ('' @ name @ ''): '' @ exc_str e))"
  "\<not> accepts (critic_error_review name e idea)"
  by (simp_all add: critic_error_review_def accepts_def)

lemma error_review_is_rejected:
  "display_and_decide p i raw (critic_error_review name e idea) st =
     Inr (st\<lparr>research_log := research_log st @
       [\<lparr>cycle = i + 1, shown_score = JInt 0, draft = raw,
         shown_critique = JStr (''Critic Error ('' @ name @ ''): '' @ exc_str e),
         accepted = False\<rparr>]\<rparr>)"
  by (simp add: display_and_decide_def critic_error_review_def)

lemma critic_model_preferred:
  "construct_raises p i ''gemini-2.5-flash'' critic_system_instruction = None \<Longrightarrow>
   critic_model p i ''gemini-2.5-flash'' =
     Inr \<lparr>model_name = ''gemini-2.5-flash'', system_instruction = critic_system_instruction\<rparr>"
  by (simp add: critic_model_def GenerativeModel_def)

lemma critic_model_fallback:
  "construct_raises p i ''gemini-2.5-flash'' critic_system_instruction = Some e0 \<Longrightarrow>
   construct_raises p i ''gemini-1.5-pro'' critic_system_instruction = None \<Longrightarrow>
   critic_model p i ''gemini-2.5-flash'' =
     Inr \<lparr>model_name = ''gemini-1.5-pro'', system_instruction = critic_system_instruction\<rparr>"
  by (simp add: critic_model_def GenerativeModel_def)

lemma critic_failure_rejects_iteration:
  assumes gen: "agent_generator p i (current_context st) (final_ideas st) = Inr raw"
    and model: "critic_model p i ''gemini-2.5-flash'' = Inr m"
    and failure: "generate_text p i m (CriticPrompt (current_context st) raw) critic_config = Inl e \<or>
      (\<exists>text. generate_text p i m (CriticPrompt (current_context st) raw) critic_config = Inr text \<and>
        json_loads p text = Inl e)"
  shows "iteration p i st =
     Inr (st\<lparr>research_log := research_log st @
       [\<lparr>cycle = i + 1, shown_score = JInt 0, draft = raw,
         shown_critique = JStr (''Critic Error (gemini-2.5-flash): '' @ exc_str e),
         accepted = False\<rparr>]\<rparr>)"
  using gen critic_failure_review [OF model failure]
  by (simp add: iteration_def error_review_is_rejected)

lemma uncaught_review_shapes:
  "display_and_decide p i raw (JList xs) st = Inl (Raised ''AttributeError'' ''object has no attribute get'')"
  "display_and_decide p i raw (JStr s) st = Inl (Raised ''AttributeError'' ''object has no attribute get'')"
  "map_of kvs ''score'' = Some (JStr s) \<Longrightarrow>
     display_and_decide p i raw (JDict kvs) st = Inl (Raised ''TypeError'' ''>= not supported'')"
  "map_of kvs ''score'' = Some JNull \<Longrightarrow>
     display_and_decide p i raw (JDict kvs) st = Inl (Raised ''TypeError'' ''>= not supported'')"
  by (simp_all add: display_and_decide_def)

text \<open>
  C3, as stated, fails. The critic's request succeeds and its answer is the JSON text
  \<^verbatim>\<open>{"score": 8, "critique": "Good"}\<close>, which lacks one of the three fields;
  \<^verbatim>\<open>agent_critic\<close> returns the decoded dict, with its score 8, and not the zero-score dict
  of its \<^verbatim>\<open>except\<close> branch.
\<close>

theorem decoded_review_is_returned_unchecked:
  "generate_text partial_provider 0
       \<lparr>model_name = ''gemini-2.5-flash'', system_instruction = critic_system_instruction\<rparr>
       (CriticPrompt ''A.'' ''draft'') critic_config = Inr partial_text \<and>
   json_loads partial_provider partial_text =
     Inr (JDict [(''score'', JInt 8), (''critique'', JStr ''Good'')]) \<and>
   agent_critic partial_provider 0 ''draft'' ''A.'' =
     Inr (JDict [(''score'', JInt 8), (''critique'', JStr ''Good'')]) \<and>
   agent_critic partial_provider 0 ''draft'' ''A.'' \<noteq>
     Inr (critic_error_review ''gemini-2.5-flash'' (Raised ''KeyError'' ''improved_version'') ''draft'')"
  by (simp add: agent_critic_def critic_model_def GenerativeModel_def partial_provider_def
      scripted_def loads_table_def critic_error_review_def)

text \<open>
  C3, amended. An answer of the critic that \<^verbatim>\<open>json.loads\<close> cannot decode is treated as a
  failed request is: for the same error \<open>e\<close>, \<^verbatim>\<open>agent_critic\<close> returns the same dict, with
  score 0, the diagnostic critique and the unmodified idea as \<open>improved_version\<close>. An
  answer that \<^verbatim>\<open>json.loads\<close> decodes is returned as decoded, whatever its shape.
\<close>

theorem undecodable_answer_is_a_request_failure:
  assumes model: "critic_model p i ''gemini-2.5-flash'' = Inr m"
  shows "(generate_text p i m (CriticPrompt context idea) critic_config = Inl e \<longrightarrow>
       agent_critic p i idea context = Inr (critic_error_review ''gemini-2.5-flash'' e idea)) \<and>
     (generate_text p i m (CriticPrompt context idea) critic_config = Inr text \<longrightarrow>
      json_loads p text = Inl e \<longrightarrow>
       agent_critic p i idea context = Inr (critic_error_review ''gemini-2.5-flash'' e idea)) \<and>
     (generate_text p i m (CriticPrompt context idea) critic_config = Inr text \<longrightarrow>
      json_loads p text = Inr v \<longrightarrow>
       agent_critic p i idea context = Inr v)"
  using critic_failure_review [OF model, of "context" idea e]
    critic_decoded_review [OF model, of "context" idea "text" v]
  by blast

theorem undecodable_answer_is_a_request_failure_witness:
  "agent_critic five_provider 2 ''draft'' ''S'' =
     Inr (critic_error_review ''gemini-2.5-flash'' (Raised ''DeadlineExceeded'' ''timeout'') ''draft'') \<and>
   agent_critic five_provider 3 ''draft'' ''S'' =
     Inr (critic_error_review ''gemini-2.5-flash''
            (Raised ''JSONDecodeError'' ''Expecting value'') ''draft'') \<and>
   agent_critic five_provider 4 ''draft'' ''S'' =
     Inr (JDict [(''score'', JInt 9), (''critique'', JStr ''Deep''),
                 (''improved_version'', JStr ''Second.'')])"
proof -
  let ?m = "\<lparr>model_name = ''gemini-2.5-flash'', system_instruction = critic_system_instruction\<rparr>"
  have model: "critic_model five_provider i ''gemini-2.5-flash'' = Inr ?m" for i
    by (simp add: critic_model_def GenerativeModel_def five_provider_def scripted_def)
  have req: "generate_text five_provider 2 ?m (CriticPrompt ''S'' ''draft'') critic_config =
      Inl (Raised ''DeadlineExceeded'' ''timeout'')"
    by (simp add: five_provider_def scripted_def five_crit_def)
  have answer3: "generate_text five_provider 3 ?m (CriticPrompt ''S'' ''draft'') critic_config =
      Inr ''not json''"
    by (simp add: five_provider_def scripted_def five_crit_def)
  have dec: "json_loads five_provider ''not json'' = Inl (Raised ''JSONDecodeError'' ''Expecting value'')"
    by (simp add: five_provider_def scripted_def loads_table_def review_table_def
        first_text_def low_text_def second_text_def)
  have answer4: "generate_text five_provider 4 ?m (CriticPrompt ''S'' ''draft'') critic_config =
      Inr second_text"
    by (simp add: five_provider_def scripted_def five_crit_def)
  have dec4: "json_loads five_provider second_text =
      Inr (JDict [(''score'', JInt 9), (''critique'', JStr ''Deep''),
                  (''improved_version'', JStr ''Second.'')])"
    by (simp add: five_provider_def scripted_def loads_table_def review_table_def
        first_text_def low_text_def second_text_def)
  from undecodable_answer_is_a_request_failure [OF model, of 2 "''S''" "''draft''"] req
  have 1: "agent_critic five_provider 2 ''draft'' ''S'' =
     Inr (critic_error_review ''gemini-2.5-flash'' (Raised ''DeadlineExceeded'' ''timeout'') ''draft'')"
    by blast
  from undecodable_answer_is_a_request_failure [OF model, of 3 "''S''" "''draft''"] answer3 dec
  have 2: "agent_critic five_provider 3 ''draft'' ''S'' =
     Inr (critic_error_review ''gemini-2.5-flash''
            (Raised ''JSONDecodeError'' ''Expecting value'') ''draft'')"
    by blast
  from undecodable_answer_is_a_request_failure [OF model, of 4 "''S''" "''draft''"] answer4 dec4
  have 3: "agent_critic five_provider 4 ''draft'' ''S'' =
     Inr (JDict [(''score'', JInt 9), (''critique'', JStr ''Deep''),
                 (''improved_version'', JStr ''Second.'')])"
    by blast
  from 1 2 3 show ?thesis by blast
qed

text \<open>
  C9, as stated, fails. Building the critic's handle raises for the preferred model and
  for \<^verbatim>\<open>'gemini-1.5-pro'\<close> alike; the second constructor call is in the \<^verbatim>\<open>except\<close> clause,
  in no \<^verbatim>\<open>try\<close>, so \<^verbatim>\<open>agent_critic\<close> returns no review: it raises to its caller, and a
  run of three iterations ends in the first.
\<close>

theorem fallback_constructor_failure_leaves_the_critic:
  "construct_raises no_critic_provider 0 ''gemini-2.5-flash'' critic_system_instruction =
     Some (Raised ''NotFound'' ''model unavailable'') \<and>
   agent_critic no_critic_provider 0 ''draft'' ''A.'' =
     Inl (Raised ''NotFound'' ''model unavailable'') \<and>
   research_loop no_critic_provider 3 ''A.'' = Inl (Raised ''NotFound'' ''model unavailable'')"
  by (simp add: run_defs no_critic_provider_def upt_rec)

text \<open>
  C9, amended. When building the critic's handle for the preferred model
  \<^verbatim>\<open>'gemini-2.5-flash'\<close> raises and the handle for \<^verbatim>\<open>'gemini-1.5-pro'\<close> can be built,
  \<^verbatim>\<open>agent_critic\<close> uses the handle of \<^verbatim>\<open>'gemini-1.5-pro'\<close> for the rest of the call and
  returns a review without raising anything. The review has the shape it has in a call
  with no fallback whose handle gives the same answer: when the answer decodes, both
  calls return the decoded value; when the request or the decoding fails, both return
  a dict of the three fields \<open>score\<close> (0), \<open>critique\<close> (a text) and \<open>improved_version\<close> (the
  idea). What the critique text says is left open here.
\<close>

theorem critic_fallback_is_transparent:
  assumes unavailable: "construct_raises p i ''gemini-2.5-flash'' critic_system_instruction = Some e0"
    and alternate: "construct_raises p i ''gemini-1.5-pro'' critic_system_instruction = None"
    and preferred: "construct_raises q i ''gemini-2.5-flash'' critic_system_instruction = None"
    and same_decoder: "json_loads q = json_loads p"
    and same_answer: "generate_text q i
        \<lparr>model_name = ''gemini-2.5-flash'', system_instruction = critic_system_instruction\<rparr>
        (CriticPrompt context idea) critic_config =
      generate_text p i
        \<lparr>model_name = ''gemini-1.5-pro'', system_instruction = critic_system_instruction\<rparr>
        (CriticPrompt context idea) critic_config"
  shows "critic_model p i ''gemini-2.5-flash'' =
       Inr \<lparr>model_name = ''gemini-1.5-pro'', system_instruction = critic_system_instruction\<rparr> \<and>
     (\<exists>review. agent_critic p i idea context = Inr review) \<and>
     (generate_text p i
        \<lparr>model_name = ''gemini-1.5-pro'', system_instruction = critic_system_instruction\<rparr>
        (CriticPrompt context idea) critic_config = Inr answer \<longrightarrow>
      json_loads p answer = Inr v \<longrightarrow>
        agent_critic p i idea context = Inr v \<and> agent_critic q i idea context = Inr v) \<and>
     (generate_text p i
        \<lparr>model_name = ''gemini-1.5-pro'', system_instruction = critic_system_instruction\<rparr>
        (CriticPrompt context idea) critic_config = Inl e \<or>
      (\<exists>answer. generate_text p i
          \<lparr>model_name = ''gemini-1.5-pro'', system_instruction = critic_system_instruction\<rparr>
          (CriticPrompt context idea) critic_config = Inr answer \<and>
        json_loads p answer = Inl e) \<longrightarrow>
        (\<exists>c c'.
           agent_critic p i idea context =
             Inr (JDict [(''score'', JInt 0), (''critique'', JStr c),
                         (''improved_version'', JStr idea)]) \<and>
           agent_critic q i idea context =
             Inr (JDict [(''score'', JInt 0), (''critique'', JStr c'),
                         (''improved_version'', JStr idea)])))"
proof -
  let ?alt = "\<lparr>model_name = ''gemini-1.5-pro'', system_instruction = critic_system_instruction\<rparr>"
  let ?pre = "\<lparr>model_name = ''gemini-2.5-flash'', system_instruction = critic_system_instruction\<rparr>"
  note mp = critic_model_fallback [OF unavailable alternate]
  note mq = critic_model_preferred [OF preferred]
  have returns: "\<exists>review. agent_critic p i idea context = Inr review"
    by (auto simp: agent_critic_def mp Let_def split: sum.splits)
  have decoded: "agent_critic p i idea context = Inr v \<and> agent_critic q i idea context = Inr v"
    if "generate_text p i ?alt (CriticPrompt context idea) critic_config = Inr answer"
      "json_loads p answer = Inr v"
    using that critic_decoded_review [OF mp, of "context" idea answer v]
      critic_decoded_review [OF mq, of "context" idea answer v] same_decoder same_answer
    by simp
  have failure: "\<exists>c c'.
           agent_critic p i idea context =
             Inr (JDict [(''score'', JInt 0), (''critique'', JStr c),
                         (''improved_version'', JStr idea)]) \<and>
           agent_critic q i idea context =
             Inr (JDict [(''score'', JInt 0), (''critique'', JStr c'),
                         (''improved_version'', JStr idea)])"
    if f: "generate_text p i ?alt (CriticPrompt context idea) critic_config = Inl e \<or>
      (\<exists>answer. generate_text p i ?alt (CriticPrompt context idea) critic_config = Inr answer \<and>
        json_loads p answer = Inl e)"
  proof -
    from f have fq: "generate_text q i ?pre (CriticPrompt context idea) critic_config = Inl e \<or>
      (\<exists>answer. generate_text q i ?pre (CriticPrompt context idea) critic_config = Inr answer \<and>
        json_loads q answer = Inl e)"
      using same_decoder same_answer by simp
    from critic_failure_review [OF mp f] critic_failure_review [OF mq fq]
    show ?thesis
      by (simp add: critic_error_review_def)
  qed
  from mp returns decoded failure show ?thesis by blast
qed

theorem critic_fallback_is_transparent_witness:
  "critic_model fallback_provider 0 ''gemini-2.5-flash'' =
       Inr \<lparr>model_name = ''gemini-1.5-pro'', system_instruction = critic_system_instruction\<rparr> \<and>
   agent_critic fallback_provider 0 ''draft'' ''S'' =
     Inr (JDict [(''score'', JInt 8), (''critique'', JStr ''Good''),
                 (''improved_version'', JStr ''First.'')]) \<and>
   agent_critic direct_provider 0 ''draft'' ''S'' =
     Inr (JDict [(''score'', JInt 8), (''critique'', JStr ''Good''),
                 (''improved_version'', JStr ''First.'')]) \<and>
   (\<exists>c c'.
      agent_critic timeout_fallback_provider 0 ''draft'' ''S'' =
        Inr (JDict [(''score'', JInt 0), (''critique'', JStr c),
                    (''improved_version'', JStr ''draft'')]) \<and>
      agent_critic timeout_direct_provider 0 ''draft'' ''S'' =
        Inr (JDict [(''score'', JInt 0), (''critique'', JStr c'),
                    (''improved_version'', JStr ''draft'')]))"
proof -
  let ?alt = "\<lparr>model_name = ''gemini-1.5-pro'', system_instruction = critic_system_instruction\<rparr>"
  let ?pre = "\<lparr>model_name = ''gemini-2.5-flash'', system_instruction = critic_system_instruction\<rparr>"
  let ?e0 = "Raised ''NotFound'' ''model unavailable''"
  have u1: "construct_raises fallback_provider 0 ''gemini-2.5-flash''
      critic_system_instruction = Some ?e0"
    by (simp add: fallback_provider_def unavailable_def)
  have a1: "construct_raises fallback_provider 0 ''gemini-1.5-pro''
      critic_system_instruction = None"
    by (simp add: fallback_provider_def unavailable_def)
  have p1: "construct_raises direct_provider 0 ''gemini-2.5-flash''
      critic_system_instruction = None"
    by (simp add: direct_provider_def scripted_def)
  have d1: "json_loads direct_provider = json_loads fallback_provider"
    by (simp add: fallback_provider_def unavailable_def)
  have s1: "generate_text direct_provider 0 ?pre (CriticPrompt ''S'' ''draft'') critic_config =
      generate_text fallback_provider 0 ?alt (CriticPrompt ''S'' ''draft'') critic_config"
    by (simp add: fallback_provider_def unavailable_def direct_provider_def scripted_def)
  have answer1: "generate_text fallback_provider 0 ?alt (CriticPrompt ''S'' ''draft'')
      critic_config = Inr first_text"
    by (simp add: fallback_provider_def unavailable_def direct_provider_def scripted_def)
  have decoded1: "json_loads fallback_provider first_text =
      Inr (JDict [(''score'', JInt 8), (''critique'', JStr ''Good''),
                  (''improved_version'', JStr ''First.'')])"
    by (simp add: fallback_provider_def unavailable_def direct_provider_def scripted_def
        loads_table_def review_table_def)
  note success = critic_fallback_is_transparent [OF u1 a1 p1 d1 s1]
  have u2: "construct_raises timeout_fallback_provider 0 ''gemini-2.5-flash''
      critic_system_instruction = Some ?e0"
    by (simp add: timeout_fallback_provider_def unavailable_def)
  have a2: "construct_raises timeout_fallback_provider 0 ''gemini-1.5-pro''
      critic_system_instruction = None"
    by (simp add: timeout_fallback_provider_def unavailable_def)
  have p2: "construct_raises timeout_direct_provider 0 ''gemini-2.5-flash''
      critic_system_instruction = None"
    by (simp add: timeout_direct_provider_def scripted_def)
  have d2: "json_loads timeout_direct_provider = json_loads timeout_fallback_provider"
    by (simp add: timeout_fallback_provider_def unavailable_def)
  have s2: "generate_text timeout_direct_provider 0 ?pre (CriticPrompt ''S'' ''draft'')
        critic_config =
      generate_text timeout_fallback_provider 0 ?alt (CriticPrompt ''S'' ''draft'') critic_config"
    by (simp add: timeout_fallback_provider_def unavailable_def timeout_direct_provider_def
        scripted_def)
  have fails2: "generate_text timeout_fallback_provider 0 ?alt (CriticPrompt ''S'' ''draft'')
      critic_config = Inl (Raised ''DeadlineExceeded'' ''timeout'')"
    by (simp add: timeout_fallback_provider_def unavailable_def timeout_direct_provider_def
        scripted_def)
  note failure = critic_fallback_is_transparent [OF u2 a2 p2 d2 s2]
  from success answer1 decoded1 failure fails2 show ?thesis
    by blast
qed

section \<open>Where the code departs from its description\<close>

text \<open>
  C2. The critic's request succeeds and its answer decodes to a dict with the score 8 and
  no \<open>improved_version\<close>. The loop reads \<^verbatim>\<open>score\<close> and \<^verbatim>\<open>critique\<close> with \<^verbatim>\<open>get\<close> and then
  \<^verbatim>\<open>review['improved_version']\<close> with a subscript: the first iteration raises
  \<^verbatim>\<open>KeyError\<close>, which nothing catches, and a run of three iterations ends there instead
  of rejecting the iteration and going on.
\<close>

theorem missing_improved_version_aborts_the_run:
  "agent_critic partial_provider 0 ''draft'' ''A.'' =
     Inr (JDict [(''score'', JInt 8), (''critique'', JStr ''Good'')]) \<and>
   research_loop partial_provider 3 ''A.'' = Inl (Raised ''KeyError'' ''improved_version'')"
  by (simp add: run_defs partial_provider_def partial_text_def upt_rec)

text \<open>
  C6. Building the handle for \<^verbatim>\<open>'gemini-2.5-flash'\<close> raises, so the critic's request is
  made on the handle of \<^verbatim>\<open>'gemini-1.5-pro'\<close>; that request fails with the error \<^verbatim>\<open>quota\<close>.
  The returned dict has the score 0 and the idea as \<open>improved_version\<close>, but its critique
  names \<^verbatim>\<open>gemini-2.5-flash\<close>, the model that did not receive the failed request.
\<close>

theorem fallback_diagnostic_names_the_preferred_model:
  "critic_model quota_provider 0 ''gemini-2.5-flash'' =
     Inr \<lparr>model_name = ''gemini-1.5-pro'', system_instruction = critic_system_instruction\<rparr> \<and>
   generate_text quota_provider 0
       \<lparr>model_name = ''gemini-1.5-pro'', system_instruction = critic_system_instruction\<rparr>
       (CriticPrompt ''S'' ''draft'') critic_config = Inl (Raised ''ResourceExhausted'' ''quota'') \<and>
   agent_critic quota_provider 0 ''draft'' ''S'' =
     Inr (JDict [(''score'', JInt 0),
                 (''critique'', JStr ''Critic Error (gemini-2.5-flash): quota''),
                 (''improved_version'', JStr ''draft'')])"
  by (simp add: agent_critic_def critic_model_def GenerativeModel_def quota_provider_def
      unavailable_def scripted_def critic_error_review_def)

end
